theory Spec2Isabelle
  imports Complex_Main
begin

section \<open>Trip lifecycle and settlement core of the online taxi backend\<close>

text \<open>
  The services in \<open>app/services/trip_service.py\<close> and \<open>app/services/payment_service.py\<close>
  are sequences of SQL statements sent over one psycopg connection. The model keeps the
  tables as lists of rows, a connection as the pair of the committed database and the
  database as the connection's open transaction sees it, and every service function as a
  function from the connection to the new connection and the returned value.

  Python's \<open>Decimal\<close> amounts are exact rationals here (no rounding to a column scale),
  timestamps are natural numbers handed in by the caller (\<open>datetime.now()\<close>,
  \<open>CURRENT_TIMESTAMP\<close>), and the status columns are strings, as the SQL text has them.
  The geographic columns are left out: no statement modelled here reads them.
\<close>

subsection \<open>Rows and tables\<close>

record trip =
  t_id :: int
  passenger_id :: int
  driver_id :: "int option"
  route_id :: "int option"
  start_time :: "nat option"
  end_time :: "nat option"
  trip_status :: string
  trip_type :: "string option"
  payment_id :: "int option"
  discount_code_id :: "int option"
  created_at :: nat
  updated_at :: nat
  deleted_at :: "nat option"

record user =
  u_id :: int
  wallet_balance :: rat
  u_updated_at :: nat
  u_deleted_at :: "nat option"

record driver =
  user_id :: int
  approval_status :: string
  d_deleted_at :: "nat option"

record payment =
  p_id :: int
  amount :: rat
  payment_type :: "string option"
  status :: string
  p_updated_at :: nat
  p_deleted_at :: "nat option"

record transaction_row =
  tx_id :: int
  tx_user_id :: int
  tx_amount :: rat
  tx_type :: string
  tx_payment_id :: "int option"

record db =
  trips :: "trip list"
  users :: "user list"
  drivers :: "driver list"
  payments :: "payment list"
  transactions :: "transaction_row list"

text \<open>
  A connection: \<open>committed\<close> is what every other connection reads, \<open>working\<close> is the
  database with the statements of the open transaction applied. psycopg opens the
  transaction with the first statement, so an explicit \<open>BEGIN\<close> changes nothing.
\<close>

record conn =
  committed :: db
  working :: db

definition connect :: "db \<Rightarrow> conn" where
  "connect d = \<lparr>committed = d, working = d\<rparr>"

definition commit :: "conn \<Rightarrow> conn" where
  "commit c = c\<lparr>committed := working c\<rparr>"

definition rollback :: "conn \<Rightarrow> conn" where
  "rollback c = c\<lparr>working := committed c\<rparr>"

datatype error = HTTPException nat string | ValidationError

subsection \<open>SQL statements on a table\<close>

definition fetchone :: "'r list \<Rightarrow> 'r option" where
  "fetchone rows = (case rows of [] \<Rightarrow> None | r # _ \<Rightarrow> Some r)"

text \<open>\<open>UPDATE tbl SET f WHERE P\<close>, the rows it returns and its row count.\<close>

definition sql_update :: "('r \<Rightarrow> bool) \<Rightarrow> ('r \<Rightarrow> 'r) \<Rightarrow> 'r list \<Rightarrow> 'r list" where
  "sql_update P f rows = map (\<lambda>r. if P r then f r else r) rows"

definition returning :: "('r \<Rightarrow> bool) \<Rightarrow> ('r \<Rightarrow> 'r) \<Rightarrow> 'r list \<Rightarrow> 'r list" where
  "returning P f rows = map f (filter P rows)"

definition rowcount :: "('r \<Rightarrow> bool) \<Rightarrow> 'r list \<Rightarrow> nat" where
  "rowcount P rows = length (filter P rows)"

text \<open>The value a serial column gives the next inserted row.\<close>

definition next_id :: "int list \<Rightarrow> int" where
  "next_id ids = fold max ids 0 + 1"

subsection \<open>PaymentService\<close>

record payment_create =
  pc_amount :: rat
  pc_payment_type :: "string option"

definition PaymentType :: "string list" where
  "PaymentType = [''cash'', ''electronic'']"

text \<open>The pydantic model \<open>PaymentCreate\<close>: \<open>amount\<close> has \<open>ge=0\<close>.\<close>

definition PaymentCreate :: "rat \<Rightarrow> string \<Rightarrow> error + payment_create" where
  "PaymentCreate amt ptype =
     (if 0 \<le> amt \<and> ptype \<in> set PaymentType
      then Inr \<lparr>pc_amount = amt, pc_payment_type = Some ptype\<rparr>
      else Inl ValidationError)"

definition create_payment :: "nat \<Rightarrow> payment_create \<Rightarrow> conn \<Rightarrow> conn \<times> payment" where
  "create_payment now payment_data c =
     (let result = \<lparr>p_id = next_id (map p_id (payments (working c))),
                     amount = pc_amount payment_data,
                     payment_type = pc_payment_type payment_data,
                     status = ''pending'',
                     p_updated_at = now,
                     p_deleted_at = None\<rparr>;
          w = (working c)\<lparr>payments := payments (working c) @ [result]\<rparr>
      in (commit (c\<lparr>working := w\<rparr>), result))"

definition update_payment_status :: "nat \<Rightarrow> int \<Rightarrow> string \<Rightarrow> conn \<Rightarrow> conn \<times> payment option" where
  "update_payment_status now pid st c =
     (let P = (\<lambda>p. p_id p = pid \<and> p_deleted_at p = None);
          f = (\<lambda>p. p\<lparr>status := st, p_updated_at := now\<rparr>);
          result = fetchone (returning P f (payments (working c)));
          w = (working c)\<lparr>payments := sql_update P f (payments (working c))\<rparr>
      in (commit (c\<lparr>working := w\<rparr>), result))"

subsection \<open>TransactionService\<close>

record transaction_create =
  tc_user_id :: int
  tc_amount :: rat
  tc_type :: string
  tc_payment_id :: "int option"

text \<open>The statements of \<open>create_transaction\<close>, in the order the function sends them.\<close>

definition select_wallet_balance :: "int \<Rightarrow> conn \<Rightarrow> rat option" where
  "select_wallet_balance uid c =
     map_option wallet_balance (fetchone (filter (\<lambda>u. u_id u = uid) (users (working c))))"

definition insert_transaction :: "transaction_create \<Rightarrow> conn \<Rightarrow> conn \<times> transaction_row" where
  "insert_transaction transaction_data c =
     (let transaction_result =
            \<lparr>tx_id = next_id (map tx_id (transactions (working c))),
             tx_user_id = tc_user_id transaction_data,
             tx_amount = tc_amount transaction_data,
             tx_type = tc_type transaction_data,
             tx_payment_id = tc_payment_id transaction_data\<rparr>
      in (c\<lparr>working := (working c)\<lparr>transactions :=
              transactions (working c) @ [transaction_result]\<rparr>\<rparr>, transaction_result))"

definition update_wallet_balance :: "nat \<Rightarrow> int \<Rightarrow> rat \<Rightarrow> conn \<Rightarrow> conn" where
  "update_wallet_balance now uid new_balance c =
     c\<lparr>working := (working c)\<lparr>users :=
         sql_update (\<lambda>u. u_id u = uid)
           (\<lambda>u. u\<lparr>wallet_balance := new_balance, u_updated_at := now\<rparr>)
           (users (working c))\<rparr>\<rparr>"

definition create_transaction ::
  "nat \<Rightarrow> transaction_create \<Rightarrow> conn \<Rightarrow> conn \<times> (error + transaction_row)" where
  "create_transaction now transaction_data c =
     (case select_wallet_balance (tc_user_id transaction_data) c of
        None \<Rightarrow> (rollback c, Inl (HTTPException 404 ''User not found''))
      | Some current_balance \<Rightarrow>
          if tc_type transaction_data \<in> set [''withdraw'', ''trip_payment'']
             \<and> current_balance < \<bar>tc_amount transaction_data\<bar>
          then (rollback c, Inl (HTTPException 400 ''Insufficient wallet balance''))
          else
            (let (c1, transaction_result) = insert_transaction transaction_data c;
                 new_balance = current_balance + tc_amount transaction_data;
                 c2 = update_wallet_balance now (tc_user_id transaction_data) new_balance c1
             in (commit c2, Inr transaction_result)))"

definition get_wallet_balance :: "int \<Rightarrow> conn \<Rightarrow> rat option" where
  "get_wallet_balance uid c =
     map_option wallet_balance
       (fetchone (filter (\<lambda>u. u_id u = uid \<and> u_deleted_at u = None) (users (working c))))"

record trip_payment_result =
  r_payment :: payment
  r_passenger_amount :: rat
  r_driver_amount :: rat
  r_platform_fee :: rat

text \<open>Python's truth value of \<open>driver_id\<close>: \<open>None\<close> and \<open>0\<close> are false.\<close>

definition truthy :: "int option \<Rightarrow> bool" where
  "truthy v = (case v of None \<Rightarrow> False | Some n \<Rightarrow> n \<noteq> 0)"

definition set_trip_payment :: "nat \<Rightarrow> int \<Rightarrow> int \<Rightarrow> conn \<Rightarrow> conn" where
  "set_trip_payment now pid tid c =
     c\<lparr>working := (working c)\<lparr>trips :=
         sql_update (\<lambda>t. t_id t = tid)
           (\<lambda>t. t\<lparr>payment_id := Some pid, updated_at := now\<rparr>)
           (trips (working c))\<rparr>\<rparr>"

definition process_trip_payment ::
  "nat \<Rightarrow> int \<Rightarrow> rat \<Rightarrow> conn \<Rightarrow> conn \<times> (error + trip_payment_result)" where
  "process_trip_payment now tid amt c =
     (case fetchone (filter (\<lambda>t. t_id t = tid \<and> deleted_at t = None) (trips (working c))) of
        None \<Rightarrow> (c, Inl (HTTPException 404 ''Trip not found''))
      | Some trip_result \<Rightarrow>
         (case PaymentCreate amt ''electronic'' of
            Inl e \<Rightarrow> (rollback c, Inl e)
          | Inr payment_data \<Rightarrow>
             (let (c1, pay) = create_payment now payment_data c;
                  passenger_transaction =
                    \<lparr>tc_user_id = passenger_id trip_result, tc_amount = - amt,
                     tc_type = ''trip_payment'', tc_payment_id = Some (p_id pay)\<rparr>
              in case create_transaction now passenger_transaction c1 of
                   (c2, Inl e) \<Rightarrow> (rollback c2, Inl e)
                 | (c2, Inr _) \<Rightarrow>
                    (let driver_amount = amt * (85 / 100);
                         credit =
                           (if truthy (driver_id trip_result)
                            then (case create_transaction now
                                     \<lparr>tc_user_id = the (driver_id trip_result),
                                      tc_amount = driver_amount,
                                      tc_type = ''trip_payment'',
                                      tc_payment_id = Some (p_id pay)\<rparr> c2 of
                                    (c3, Inl e) \<Rightarrow> (c3, Some e)
                                  | (c3, Inr _) \<Rightarrow> (c3, None))
                            else (c2, None))
                     in case credit of
                          (c3, Some e) \<Rightarrow> (rollback c3, Inl e)
                        | (c3, None) \<Rightarrow>
                           (let c4 = set_trip_payment now (p_id pay) tid c3;
                                c5 = fst (update_payment_status now (p_id pay) ''completed'' c4)
                            in (commit c5,
                                Inr \<lparr>r_payment = pay,
                                     r_passenger_amount = - amt,
                                     r_driver_amount =
                                       (if truthy (driver_id trip_result) then driver_amount else 0),
                                     r_platform_fee =
                                       (if truthy (driver_id trip_result)
                                        then amt - driver_amount else amt)\<rparr>))))))"

subsection \<open>TripService\<close>

record trip_create =
  c_passenger_id :: int
  c_driver_id :: "int option"
  c_route_id :: "int option"
  c_trip_type :: "string option"
  c_discount_code_id :: "int option"

record trip_update =
  tu_driver_id :: "int option"
  tu_trip_status :: "string option"
  tu_start_time :: "nat option"
  tu_end_time :: "nat option"
  tu_payment_id :: "int option"

definition set_trips :: "trip list \<Rightarrow> conn \<Rightarrow> conn" where
  "set_trips ts c = c\<lparr>working := (working c)\<lparr>trips := ts\<rparr>\<rparr>"

definition create_trip :: "nat \<Rightarrow> trip_create \<Rightarrow> conn \<Rightarrow> conn \<times> (error + trip)" where
  "create_trip now trip_data c =
     (if fetchone (filter (\<lambda>u. u_id u = c_passenger_id trip_data) (users (working c))) = None
      then (c, Inl (HTTPException 404 ''Passenger not found''))
      else
        (let result = \<lparr>t_id = next_id (map t_id (trips (working c))),
                       passenger_id = c_passenger_id trip_data,
                       driver_id = c_driver_id trip_data,
                       route_id = c_route_id trip_data,
                       start_time = None,
                       end_time = None,
                       trip_status = ''pending'',
                       trip_type = c_trip_type trip_data,
                       payment_id = None,
                       discount_code_id = c_discount_code_id trip_data,
                       created_at = now,
                       updated_at = now,
                       deleted_at = None\<rparr>
         in (commit (set_trips (trips (working c) @ [result]) c), Inr result)))"

definition get_trip_by_id :: "int \<Rightarrow> conn \<Rightarrow> trip option" where
  "get_trip_by_id tid c =
     fetchone (filter (\<lambda>t. t_id t = tid \<and> deleted_at t = None) (trips (working c)))"

text \<open>A field of \<open>TripUpdate\<close> that is not \<open>None\<close> becomes a \<open>SET\<close> clause.\<close>

definition set_field :: "'a option \<Rightarrow> 'a \<Rightarrow> 'a" where
  "set_field new old = (case new of None \<Rightarrow> old | Some v \<Rightarrow> v)"

definition set_opt_field :: "'a option \<Rightarrow> 'a option \<Rightarrow> 'a option" where
  "set_opt_field new old = (case new of None \<Rightarrow> old | Some v \<Rightarrow> Some v)"

definition update_trip :: "nat \<Rightarrow> int \<Rightarrow> trip_update \<Rightarrow> conn \<Rightarrow> conn \<times> trip option" where
  "update_trip now tid trip_data c =
     (if tu_driver_id trip_data = None \<and> tu_trip_status trip_data = None
         \<and> tu_start_time trip_data = None \<and> tu_end_time trip_data = None
         \<and> tu_payment_id trip_data = None
      then (c, get_trip_by_id tid c)
      else
        (let P = (\<lambda>t. t_id t = tid \<and> deleted_at t = None);
             f = (\<lambda>t. t\<lparr>driver_id := set_opt_field (tu_driver_id trip_data) (driver_id t),
                        trip_status := set_field (tu_trip_status trip_data) (trip_status t),
                        start_time := set_opt_field (tu_start_time trip_data) (start_time t),
                        end_time := set_opt_field (tu_end_time trip_data) (end_time t),
                        payment_id := set_opt_field (tu_payment_id trip_data) (payment_id t),
                        updated_at := now\<rparr>);
             c' = commit (set_trips (sql_update P f (trips (working c))) c)
         in if rowcount P (trips (working c)) = 0 then (c', None)
            else (c', get_trip_by_id tid c')))"

text \<open>
  The count of available drivers in \<open>estimate_trip\<close>. The distance comes from
  floating-point trigonometry and the price from the tariffs table, whose schema is not
  part of the sources; both are handed in.
\<close>

definition available_drivers :: "conn \<Rightarrow> nat" where
  "available_drivers c =
     length (filter
       (\<lambda>d. approval_status d = ''approved'' \<and> d_deleted_at d = None
            \<and> Some (user_id d) \<notin> set (map driver_id
                 (filter (\<lambda>t. trip_status t \<in> set [''pending'', ''started'', ''waiting'']
                              \<and> driver_id t \<noteq> None)
                    (trips (working c)))))
       (drivers (working c)))"

record trip_estimate =
  estimated_distance_km :: rat
  estimated_price :: rat
  estimated_duration_minutes :: int
  est_available_drivers :: nat

text \<open>Python's \<open>int\<close> of a decimal truncates towards zero.\<close>

definition py_int :: "rat \<Rightarrow> int" where
  "py_int x = (if 0 \<le> x then \<lfloor>x\<rfloor> else \<lceil>x\<rceil>)"

definition estimate_trip :: "rat \<Rightarrow> rat option \<Rightarrow> conn \<Rightarrow> trip_estimate" where
  "estimate_trip distance_km tariff_row c =
     (let price_per_km = (case tariff_row of Some p \<Rightarrow> p | None \<Rightarrow> 10)
      in \<lparr>estimated_distance_km = distance_km,
          estimated_price = distance_km * price_per_km,
          estimated_duration_minutes = py_int (distance_km * 2),
          est_available_drivers = available_drivers c\<rparr>)"

definition assign_driver_to_trip :: "nat \<Rightarrow> int \<Rightarrow> int \<Rightarrow> conn \<Rightarrow> conn \<times> (error + bool)" where
  "assign_driver_to_trip now tid did c =
     (if fetchone (filter (\<lambda>d. user_id d = did \<and> approval_status d = ''approved''
                               \<and> d_deleted_at d = None) (drivers (working c))) = None
      then (c, Inl (HTTPException 400 ''Driver not available''))
      else if fetchone (filter (\<lambda>t. driver_id t = Some did
                      \<and> trip_status t \<in> set [''pending'', ''started'', ''waiting'']
                      \<and> deleted_at t = None) (trips (working c))) \<noteq> None
      then (c, Inl (HTTPException 400 ''Driver is already on another trip''))
      else
        (let P = (\<lambda>t. t_id t = tid \<and> trip_status t = ''pending'' \<and> deleted_at t = None);
             f = (\<lambda>t. t\<lparr>driver_id := Some did, updated_at := now\<rparr>)
         in (commit (set_trips (sql_update P f (trips (working c))) c),
             Inr (rowcount P (trips (working c)) > 0))))"

text \<open>
  \<open>accept_trip\<close> sends two statements: the \<open>SELECT\<close> that checks that the trip is pending
  and has no driver, and the \<open>UPDATE\<close>, whose \<open>WHERE\<close> clause is \<open>id = %s\<close> only.
\<close>

definition accept_trip_available :: "int \<Rightarrow> conn \<Rightarrow> bool" where
  "accept_trip_available tid c =
     (case fetchone (filter (\<lambda>t. t_id t = tid \<and> deleted_at t = None) (trips (working c))) of
        None \<Rightarrow> False
      | Some t \<Rightarrow> \<not> (trip_status t \<noteq> ''pending'' \<or> driver_id t \<noteq> None))"

definition accept_trip_update :: "nat \<Rightarrow> int \<Rightarrow> int \<Rightarrow> conn \<Rightarrow> conn \<times> trip option" where
  "accept_trip_update now tid did c =
     (let P = (\<lambda>t. t_id t = tid);
          f = (\<lambda>t. t\<lparr>driver_id := Some did, trip_status := ''accepted'', updated_at := now\<rparr>)
      in (commit (set_trips (sql_update P f (trips (working c))) c),
          fetchone (returning P f (trips (working c)))))"

definition accept_trip :: "nat \<Rightarrow> int \<Rightarrow> int \<Rightarrow> conn \<Rightarrow> conn \<times> trip option" where
  "accept_trip now tid did c =
     (if accept_trip_available tid c then accept_trip_update now tid did c else (c, None))"

text \<open>
  \<open>start_trip\<close>, \<open>complete_trip\<close> and \<open>cancel_trip\<close> are one guarded \<open>UPDATE\<close> each, committed
  when it returned a row.
\<close>

definition guarded_update ::
  "(trip \<Rightarrow> bool) \<Rightarrow> (trip \<Rightarrow> trip) \<Rightarrow> conn \<Rightarrow> conn \<times> trip option" where
  "guarded_update P f c =
     (let result = fetchone (returning P f (trips (working c)));
          c' = set_trips (sql_update P f (trips (working c))) c
      in case result of None \<Rightarrow> (c', None) | Some r \<Rightarrow> (commit c', Some r))"

definition start_trip :: "nat \<Rightarrow> int \<Rightarrow> int \<Rightarrow> conn \<Rightarrow> conn \<times> trip option" where
  "start_trip now tid did c =
     guarded_update
       (\<lambda>t. t_id t = tid \<and> driver_id t = Some did \<and> trip_status t = ''accepted'')
       (\<lambda>t. t\<lparr>trip_status := ''in_progress'', start_time := Some now, updated_at := now\<rparr>) c"

definition complete_trip :: "nat \<Rightarrow> int \<Rightarrow> int \<Rightarrow> conn \<Rightarrow> conn \<times> trip option" where
  "complete_trip now tid did c =
     guarded_update
       (\<lambda>t. t_id t = tid \<and> driver_id t = Some did \<and> trip_status t = ''in_progress'')
       (\<lambda>t. t\<lparr>trip_status := ''completed'', end_time := Some now, updated_at := now\<rparr>) c"

definition cancel_trip :: "nat \<Rightarrow> int \<Rightarrow> int \<Rightarrow> conn \<Rightarrow> conn \<times> trip option" where
  "cancel_trip now tid did c =
     guarded_update
       (\<lambda>t. t_id t = tid \<and> driver_id t = Some did
            \<and> trip_status t \<in> set [''accepted'', ''in_progress''])
       (\<lambda>t. t\<lparr>trip_status := ''cancelled'', updated_at := now\<rparr>) c"

subsection \<open>The response schema\<close>









subsection \<open>Operations in sequence and in an interleaving\<close>

datatype op =
    Create nat trip_create
  | Accept nat int int
  | Assign nat int int
  | Update nat int trip_update
  | Start nat int int
  | Complete nat int int
  | Cancel nat int int

fun run_op :: "op \<Rightarrow> conn \<Rightarrow> conn" where
  "run_op (Create now trip_data) c = fst (create_trip now trip_data c)"
| "run_op (Accept now tid did) c = fst (accept_trip now tid did c)"
| "run_op (Assign now tid did) c = fst (assign_driver_to_trip now tid did c)"
| "run_op (Update now tid trip_data) c = fst (update_trip now tid trip_data c)"
| "run_op (Start now tid did) c = fst (start_trip now tid did c)"
| "run_op (Complete now tid did) c = fst (complete_trip now tid did c)"
| "run_op (Cancel now tid did) c = fst (cancel_trip now tid did c)"

definition run_ops :: "op list \<Rightarrow> conn \<Rightarrow> conn" where
  "run_ops ops c = fold run_op ops c"


text \<open>
  Two requests accepting the same trip, each on its own connection to the database \<open>d\<close>,
  scheduled so that both \<open>SELECT\<close>s run before either \<open>UPDATE\<close>. Each statement reads the
  database as committed when it runs.
\<close>

definition accept_trip_interleaved ::
  "nat \<Rightarrow> nat \<Rightarrow> int \<Rightarrow> int \<Rightarrow> int \<Rightarrow> db \<Rightarrow> db \<times> trip option \<times> trip option" where
  "accept_trip_interleaved now1 now2 tid d1 d2 d =
     (let ok1 = accept_trip_available tid (connect d);
          ok2 = accept_trip_available tid (connect d);
          (c1, r1) = (if ok1 then accept_trip_update now1 tid d1 (connect d)
                      else (connect d, None));
          (c2, r2) = (if ok2 then accept_trip_update now2 tid d2 (connect (committed c1))
                      else (connect (committed c1), None))
      in (committed c2, r1, r2))"

subsection \<open>Properties stated over the tables\<close>

text \<open>The sum of a user's ledger rows, and the ledger invariant of the data model.\<close>

definition ledger_sum :: "int \<Rightarrow> db \<Rightarrow> rat" where
  "ledger_sum uid d =
     sum_list (map tx_amount (filter (\<lambda>t. tx_user_id t = uid) (transactions d)))"


text \<open>The primary key of the trips table.\<close>

definition trip_ids_distinct :: "db \<Rightarrow> bool" where
  "trip_ids_distinct d = distinct (map t_id (trips d))"

text \<open>
  A later trips table keeps the drivers of an earlier one: every row is still there, in
  place, and a driver that was set is the same.
\<close>

definition keeps_driver :: "trip \<Rightarrow> trip \<Rightarrow> bool" where
  "keeps_driver t t' =
     (t_id t' = t_id t \<and> (driver_id t \<noteq> None \<longrightarrow> driver_id t' = driver_id t))"

definition drivers_kept :: "trip list \<Rightarrow> trip list \<Rightarrow> bool" where
  "drivers_kept ts ts' =
     (length ts \<le> length ts' \<and> list_all2 keeps_driver ts (take (length ts) ts'))"

text \<open>The operations that, by construction, never write a driver over another.\<close>

fun keeps_driver_op :: "op \<Rightarrow> bool" where
  "keeps_driver_op (Assign now tid did) = False"
| "keeps_driver_op (Update now tid trip_data) = (tu_driver_id trip_data = None)"
| "keeps_driver_op _ = True"

text \<open>
  The count of available drivers as the specification words it: approved, not deleted, and
  not the driver of a trip that is pending, in progress or waiting.
\<close>

definition spec_available_drivers :: "conn \<Rightarrow> nat" where
  "spec_available_drivers c =
     length (filter
       (\<lambda>d. approval_status d = ''approved'' \<and> d_deleted_at d = None
            \<and> Some (user_id d) \<notin> set (map driver_id
                 (filter (\<lambda>t. trip_status t \<in> set [''pending'', ''in_progress'', ''waiting''])
                    (trips (working c)))))
       (drivers (working c)))"

subsection \<open>Scenario data\<close>

definition mk_user :: "int \<Rightarrow> rat \<Rightarrow> user" where
  "mk_user i b = \<lparr>u_id = i, wallet_balance = b, u_updated_at = 0, u_deleted_at = None\<rparr>"

definition mk_trip :: "int \<Rightarrow> int \<Rightarrow> int option \<Rightarrow> string \<Rightarrow> trip" where
  "mk_trip i p d s =
     \<lparr>t_id = i, passenger_id = p, driver_id = d, route_id = None, start_time = None,
      end_time = None, trip_status = s, trip_type = Some ''urban'', payment_id = None,
      discount_code_id = None, created_at = 0, updated_at = 0, deleted_at = None\<rparr>"

definition mk_driver :: "int \<Rightarrow> driver" where
  "mk_driver i = \<lparr>user_id = i, approval_status = ''approved'', d_deleted_at = None\<rparr>"

text \<open>A database with the approved drivers 5 and 6 and no payment or ledger row.\<close>

definition mk_db :: "trip list \<Rightarrow> user list \<Rightarrow> db" where
  "mk_db ts us =
     \<lparr>trips = ts, users = us, drivers = [mk_driver 5, mk_driver 6], payments = [],
      transactions = []\<rparr>"

section \<open>Evaluation and proofs\<close>

lemmas mk_defs = mk_user_def mk_trip_def mk_driver_def mk_db_def

lemmas conn_defs = connect_def commit_def rollback_def set_trips_def

lemmas sql_defs = fetchone_def sql_update_def returning_def rowcount_def next_id_def

lemmas payment_defs = PaymentCreate_def PaymentType_def create_payment_def
  update_payment_status_def select_wallet_balance_def insert_transaction_def
  update_wallet_balance_def create_transaction_def get_wallet_balance_def truthy_def
  set_trip_payment_def process_trip_payment_def

lemmas trip_defs = create_trip_def get_trip_by_id_def set_field_def set_opt_field_def
  update_trip_def available_drivers_def estimate_trip_def assign_driver_to_trip_def
  accept_trip_available_def accept_trip_update_def accept_trip_def guarded_update_def
  start_trip_def complete_trip_def cancel_trip_def


subsection \<open>Facts about the statements\<close>

lemma fetchone_Some: "fetchone rows = Some r \<Longrightarrow> r \<in> set rows"
  by (cases rows) (auto simp: fetchone_def)

lemma fetchone_filter_Some:
  "fetchone (filter P rows) = Some r \<Longrightarrow> r \<in> set rows \<and> P r"
  using fetchone_Some[of "filter P rows" r] by simp

lemma fold_max_ge: "(a::int) \<le> fold max ids a \<and> (\<forall>x \<in> set ids. x \<le> fold max ids a)"
proof (induction ids arbitrary: a)
  case Nil
  then show ?case by simp
next
  case (Cons y ys)
  from Cons.IH[of "max y a"] show ?case by auto
qed

lemma next_id_fresh: "next_id ids \<notin> set ids"
  using fold_max_ge[of 0 ids] by (auto simp: next_id_def)

lemma sql_update_mem: "y \<in> set rows \<Longrightarrow> P y \<Longrightarrow> f y \<in> set (sql_update P f rows)"
  by (auto simp: sql_update_def)

lemma guarded_update_trips:
  "trips (working (fst (guarded_update P f c))) = sql_update P f (trips (working c))"
  by (simp add: guarded_update_def set_trips_def commit_def Let_def split: option.splits)

lemma guarded_update_frame:
  "payments (working (fst (guarded_update P f c))) = payments (working c)
   \<and> transactions (working (fst (guarded_update P f c))) = transactions (working c)
   \<and> users (working (fst (guarded_update P f c))) = users (working c)
   \<and> drivers (working (fst (guarded_update P f c))) = drivers (working c)"
  by (simp add: guarded_update_def set_trips_def commit_def Let_def split: option.splits)

lemma guarded_update_hit:
  assumes "t \<in> set (trips (working c))" and "P t"
  shows "\<exists>y \<in> set (trips (working c)). P y \<and> snd (guarded_update P f c) = Some (f y)
           \<and> committed (fst (guarded_update P f c)) = working (fst (guarded_update P f c))"
proof -
  from assms have "filter P (trips (working c)) \<noteq> []"
    by (auto simp: filter_empty_conv)
  then obtain y ys where ys: "filter P (trips (working c)) = y # ys"
    by (cases "filter P (trips (working c))") auto
  then have "y \<in> set (filter P (trips (working c)))" by simp
  then have "y \<in> set (trips (working c))" "P y" by auto
  moreover have "snd (guarded_update P f c) = Some (f y)"
    by (simp add: guarded_update_def returning_def fetchone_def ys Let_def)
  moreover have "committed (fst (guarded_update P f c)) = working (fst (guarded_update P f c))"
    by (simp add: guarded_update_def returning_def fetchone_def ys Let_def commit_def)
  ultimately show ?thesis by blast
qed

subsection \<open>Settlement that fails\<close>

text \<open>
  C2. The claim: a \<open>process_trip_payment\<close> that fails at any step is rolled back as a
  whole, so that no payment row remains, no ledger row exists, and balances and trip are
  unchanged. The function does wrap its steps in \<open>BEGIN\<close> and \<open>ROLLBACK\<close>, but
  \<open>create_payment\<close> commits its insert. Here passenger 1 has balance 0 and the fare is
  500: the debit raises "Insufficient wallet balance", and the committed database holds
  the payment row of the attempt, still \<open>pending\<close>.
\<close>

theorem process_trip_payment_failure_leaves_pending_payment:
  "snd (process_trip_payment 7 1 500
          (connect (mk_db [mk_trip 1 1 (Some 5) ''in_progress''] [mk_user 1 0, mk_user 5 0])))
     = Inl (HTTPException 400 ''Insufficient wallet balance'')
   \<and> payments (committed (fst (process_trip_payment 7 1 500
          (connect (mk_db [mk_trip 1 1 (Some 5) ''in_progress''] [mk_user 1 0, mk_user 5 0])))))
     = [\<lparr>p_id = 1, amount = 500, payment_type = Some ''electronic'', status = ''pending'',
         p_updated_at = 7, p_deleted_at = None\<rparr>]"
  by (simp add: payment_defs sql_defs conn_defs mk_defs Let_def)

text \<open>
  The same function with a passenger who can pay and a driver whose balance is 0: the
  passenger's debit is committed by \<open>create_transaction\<close>, the driver's credit is refused,
  and the rollback that follows undoes nothing.
\<close>

lemma process_trip_payment_half_applied:
  "process_trip_payment 7 1 500
     (connect (mk_db [mk_trip 1 1 (Some 5) ''in_progress''] [mk_user 1 1000, mk_user 5 0]))
   = (connect
        \<lparr>trips = [mk_trip 1 1 (Some 5) ''in_progress''],
         users = [\<lparr>u_id = 1, wallet_balance = 500, u_updated_at = 7, u_deleted_at = None\<rparr>,
                  mk_user 5 0],
         drivers = [mk_driver 5, mk_driver 6],
         payments = [\<lparr>p_id = 1, amount = 500, payment_type = Some ''electronic'',
                      status = ''pending'', p_updated_at = 7, p_deleted_at = None\<rparr>],
         transactions = [\<lparr>tx_id = 1, tx_user_id = 1, tx_amount = - 500,
                          tx_type = ''trip_payment'', tx_payment_id = Some 1\<rparr>]\<rparr>,
      Inl (HTTPException 400 ''Insufficient wallet balance''))"
  by (simp add: payment_defs sql_defs conn_defs mk_defs Let_def)

subsection \<open>The balance check of the ledger\<close>

text \<open>
  C7. The claim: \<open>create_transaction\<close> fails for insufficient funds exactly when the
  transaction is a debit (\<open>withdraw\<close>, or \<open>trip_payment\<close> with a negative amount) and the
  balance is below the absolute amount; a credit never fails for insufficiency. The check
  in the code tests the type and the absolute amount, not the sign: a \<open>trip_payment\<close>
  credit of 425 to a user whose balance is 0 is refused.
\<close>

theorem create_transaction_credit_insufficient:
  "create_transaction 7
     \<lparr>tc_user_id = 5, tc_amount = 425, tc_type = ''trip_payment'', tc_payment_id = None\<rparr>
     (connect (mk_db [] [mk_user 5 0]))
   = (connect (mk_db [] [mk_user 5 0]), Inl (HTTPException 400 ''Insufficient wallet balance''))"
  by (simp add: payment_defs sql_defs conn_defs mk_defs Let_def)

subsection \<open>Driver assignment\<close>

text \<open>
  C3. The claim: accepting or assigning succeeds only if the driver is approved, not
  deleted and holds no trip that is pending, accepted, in progress or waiting. Driver 5
  holds trip 1, which is \<open>in_progress\<close>. \<open>accept_trip\<close> checks nothing about the driver and
  binds trip 2 to driver 5; \<open>assign_driver_to_trip\<close> looks for trips of the driver in
  \<open>pending\<close>, \<open>started\<close> and \<open>waiting\<close> only, and binds trip 2 to driver 5 as well.
\<close>

theorem accept_and_assign_ignore_active_trip:
  "snd (accept_trip 7 2 5 (connect (mk_db
          [mk_trip 1 1 (Some 5) ''in_progress'', mk_trip 2 3 None ''pending''] [])))
     = Some ((mk_trip 2 3 (Some 5) ''accepted'')\<lparr>updated_at := 7\<rparr>)
   \<and> assign_driver_to_trip 7 2 5 (connect (mk_db
          [mk_trip 1 1 (Some 5) ''in_progress'', mk_trip 2 3 None ''pending''] []))
     = (connect (mk_db [mk_trip 1 1 (Some 5) ''in_progress'',
                        (mk_trip 2 3 (Some 5) ''pending'')\<lparr>updated_at := 7\<rparr>] []),
        Inr True)"
  by (simp add: trip_defs sql_defs conn_defs mk_defs Let_def)

text \<open>
  C4. The claim: two concurrent accepts of one pending, driverless trip resolve through
  one atomic conditional write, so that exactly one succeeds. The \<open>UPDATE\<close> of
  \<open>accept_trip\<close> is guarded by the trip id only. When drivers 5 and 6 both pass the
  \<open>SELECT\<close> before either writes, both get the trip back as accepted, and the trip is left
  with driver 6.
\<close>

theorem accept_trip_interleaved_both_succeed:
  "accept_trip_interleaved 7 8 1 5 6 (mk_db [mk_trip 1 1 None ''pending''] [])
   = (mk_db [(mk_trip 1 1 (Some 6) ''accepted'')\<lparr>updated_at := 8\<rparr>] [],
      Some ((mk_trip 1 1 (Some 5) ''accepted'')\<lparr>updated_at := 7\<rparr>),
      Some ((mk_trip 1 1 (Some 6) ''accepted'')\<lparr>updated_at := 8\<rparr>))"
  by (simp add: accept_trip_interleaved_def trip_defs sql_defs conn_defs mk_defs Let_def)

subsection \<open>Estimate\<close>

text \<open>
  C9. The claim: \<open>available_drivers\<close> counts the approved, undeleted drivers that are not
  the driver of a pending, in-progress or waiting trip, so a driver on a trip in progress
  is never counted. The query lists \<open>started\<close> where \<open>start_trip\<close> writes \<open>in_progress\<close>:
  after driver 5 starts trip 1, the estimate counts both drivers 5 and 6, where the count
  as specified is 1.
\<close>

theorem estimate_trip_counts_driver_in_progress:
  "trips (committed (fst (start_trip 7 1 5
       (connect (mk_db [mk_trip 1 1 (Some 5) ''accepted''] [])))))
     = [(mk_trip 1 1 (Some 5) ''in_progress'')\<lparr>start_time := Some 7, updated_at := 7\<rparr>]
   \<and> est_available_drivers (estimate_trip 3 None
       (fst (start_trip 7 1 5 (connect (mk_db [mk_trip 1 1 (Some 5) ''accepted''] []))))) = 2
   \<and> spec_available_drivers
       (fst (start_trip 7 1 5 (connect (mk_db [mk_trip 1 1 (Some 5) ''accepted''] [])))) = 1"
  by (simp add: spec_available_drivers_def trip_defs sql_defs conn_defs mk_defs Let_def)

subsection \<open>Typed responses\<close>


subsection \<open>Completion\<close>

text \<open>
  C1, as stated: \<open>complete_trip\<close> on a trip in progress sets it to completed and performs
  the settlement for its fare as one unit, so that the trip is never seen completed
  without the settlement. \<open>complete_trip\<close> is one \<open>UPDATE\<close> of the trip and a commit; it
  calls no settlement. Trip 1 of passenger 1 and driver 5 is completed and committed while
  the payments and the ledger stay empty, the balances stay 1000 and 0 and the trip has no
  payment.
\<close>

theorem complete_trip_without_settlement:
  "complete_trip 7 1 5
     (connect (mk_db [mk_trip 1 1 (Some 5) ''in_progress''] [mk_user 1 1000, mk_user 5 0]))
   = (connect (mk_db
        [(mk_trip 1 1 (Some 5) ''completed'')\<lparr>end_time := Some 7, updated_at := 7\<rparr>]
        [mk_user 1 1000, mk_user 5 0]),
      Some ((mk_trip 1 1 (Some 5) ''completed'')\<lparr>end_time := Some 7, updated_at := 7\<rparr>))"
  by (simp add: trip_defs sql_defs conn_defs mk_defs Let_def)

text \<open>
  C1, amended: for every trip in progress whose assigned driver calls \<open>complete_trip\<close>, the
  call returns the trip as completed with its end time, the returned row is in the trips
  table, and the change is committed; no settlement takes place: the payments, the ledger
  and the users (so every balance) are as before, and no trip's payment reference
  changes.
\<close>

theorem complete_trip_changes_trip_only:
  assumes "t \<in> set (trips (working c))" and "t_id t = tid" and "driver_id t = Some did"
    and "trip_status t = ''in_progress''"
  shows "(\<exists>r. snd (complete_trip now tid did c) = Some r
            \<and> r \<in> set (trips (working (fst (complete_trip now tid did c))))
            \<and> t_id r = tid \<and> driver_id r = Some did
            \<and> trip_status r = ''completed'' \<and> end_time r = Some now)
       \<and> committed (fst (complete_trip now tid did c)) = working (fst (complete_trip now tid did c))
       \<and> payments (working (fst (complete_trip now tid did c))) = payments (working c)
       \<and> transactions (working (fst (complete_trip now tid did c))) = transactions (working c)
       \<and> users (working (fst (complete_trip now tid did c))) = users (working c)
       \<and> map payment_id (trips (working (fst (complete_trip now tid did c))))
           = map payment_id (trips (working c))"
proof -
  define P where
    "P = (\<lambda>t::trip. t_id t = tid \<and> driver_id t = Some did \<and> trip_status t = ''in_progress'')"
  define f where
    "f = (\<lambda>t::trip. t\<lparr>trip_status := ''completed'', end_time := Some now, updated_at := now\<rparr>)"
  have def: "complete_trip now tid did c = guarded_update P f c"
    by (simp add: complete_trip_def P_def f_def)
  from assms have "P t" by (simp add: P_def)
  then have "\<exists>y \<in> set (trips (working c)). P y \<and> snd (guarded_update P f c) = Some (f y)
           \<and> committed (fst (guarded_update P f c)) = working (fst (guarded_update P f c))"
    using assms(1) by (rule guarded_update_hit[rotated])
  then obtain y where y: "y \<in> set (trips (working c))" "P y"
    and res: "snd (guarded_update P f c) = Some (f y)"
    and com: "committed (fst (guarded_update P f c)) = working (fst (guarded_update P f c))"
    by auto
  have mem: "f y \<in> set (trips (working (fst (guarded_update P f c))))"
    unfolding guarded_update_trips using y by (rule sql_update_mem)
  have fy: "t_id (f y) = tid \<and> driver_id (f y) = Some did
      \<and> trip_status (f y) = ''completed'' \<and> end_time (f y) = Some now"
    using y(2) by (simp add: P_def f_def)
  have pay: "map payment_id (trips (working (fst (guarded_update P f c))))
      = map payment_id (trips (working c))"
    by (simp add: guarded_update_trips sql_update_def f_def)
  have 1: "\<exists>r. snd (complete_trip now tid did c) = Some r
            \<and> r \<in> set (trips (working (fst (complete_trip now tid did c))))
            \<and> t_id r = tid \<and> driver_id r = Some did
            \<and> trip_status r = ''completed'' \<and> end_time r = Some now"
    unfolding def using res mem fy by blast
  from 1 com pay guarded_update_frame[of P f c] show ?thesis
    unfolding def by blast
qed

theorem complete_trip_changes_trip_only_witness:
  "mk_trip 1 1 (Some 5) ''in_progress''
     \<in> set (trips (working (connect (mk_db [mk_trip 1 1 (Some 5) ''in_progress'']
                                          [mk_user 1 1000, mk_user 5 0]))))
   \<and> t_id (mk_trip 1 1 (Some 5) ''in_progress'') = 1
   \<and> driver_id (mk_trip 1 1 (Some 5) ''in_progress'') = Some 5
   \<and> trip_status (mk_trip 1 1 (Some 5) ''in_progress'') = ''in_progress''
   \<and> map_option trip_status (snd (complete_trip 7 1 5
        (connect (mk_db [mk_trip 1 1 (Some 5) ''in_progress''] [mk_user 1 1000, mk_user 5 0]))))
       = Some ''completed''
   \<and> payments (working (fst (complete_trip 7 1 5
        (connect (mk_db [mk_trip 1 1 (Some 5) ''in_progress''] [mk_user 1 1000, mk_user 5 0])))))
       = []
   \<and> transactions (working (fst (complete_trip 7 1 5
        (connect (mk_db [mk_trip 1 1 (Some 5) ''in_progress''] [mk_user 1 1000, mk_user 5 0])))))
       = []"
  using complete_trip_changes_trip_only[of "mk_trip 1 1 (Some 5) ''in_progress''"
      "connect (mk_db [mk_trip 1 1 (Some 5) ''in_progress''] [mk_user 1 1000, mk_user 5 0])"
      1 5 7]
  by (simp add: trip_defs sql_defs conn_defs mk_defs Let_def)

subsection \<open>The driver of a trip\<close>

text \<open>
  C5, as stated: over every sequence of create, accept, assign, update, start, complete
  and cancel, the driver of a trip goes from null to a driver at most once, and no later
  operation replaces it. \<open>update_trip\<close> writes any \<open>driver_id\<close> it is given: after driver 5
  accepted trip 1, an update carrying driver 6 leaves the trip with driver 6. The
  \<open>UPDATE\<close> of \<open>assign_driver_to_trip\<close> is guarded by the pending status only, and the
  assignment leaves the trip pending, so a second assignment replaces the first.
\<close>

theorem update_trip_replaces_driver:
  "map driver_id (trips (working (run_ops [Accept 7 1 5]
       (connect (mk_db [mk_trip 1 1 None ''pending''] []))))) = [Some 5]
   \<and> map driver_id (trips (working (run_ops
       [Accept 7 1 5,
        Update 8 1 \<lparr>tu_driver_id = Some 6, tu_trip_status = None, tu_start_time = None,
                     tu_end_time = None, tu_payment_id = None\<rparr>]
       (connect (mk_db [mk_trip 1 1 None ''pending''] []))))) = [Some 6]
   \<and> map driver_id (trips (working (run_ops [Assign 7 1 5]
       (connect (mk_db [mk_trip 1 1 None ''pending''] []))))) = [Some 5]
   \<and> map driver_id (trips (working (run_ops [Assign 7 1 5, Assign 8 1 6]
       (connect (mk_db [mk_trip 1 1 None ''pending''] []))))) = [Some 6]"
  by (simp add: run_ops_def trip_defs sql_defs conn_defs mk_defs Let_def)

lemma drivers_kept_nth:
  "drivers_kept ts ts' \<longleftrightarrow>
     length ts \<le> length ts' \<and> (\<forall>i < length ts. keeps_driver (ts ! i) (ts' ! i))"
  by (auto simp: drivers_kept_def list_all2_conv_all_nth)

lemma drivers_kept_refl: "drivers_kept ts ts"
  by (simp add: drivers_kept_nth keeps_driver_def)

lemma drivers_kept_trans:
  "drivers_kept ts ts' \<Longrightarrow> drivers_kept ts' ts'' \<Longrightarrow> drivers_kept ts ts''"
  unfolding drivers_kept_nth keeps_driver_def
  by (metis (no_types, lifting) le_trans less_le_trans)

lemma drivers_kept_append: "drivers_kept ts (ts @ [x])"
  by (simp add: drivers_kept_nth keeps_driver_def nth_append)

lemma drivers_kept_sql_update:
  assumes "\<And>t. t \<in> set ts \<Longrightarrow> P t \<Longrightarrow> keeps_driver t (f t)"
  shows "drivers_kept ts (sql_update P f ts)"
  using assms by (auto simp: drivers_kept_nth sql_update_def keeps_driver_def)

lemma ids_sql_update:
  assumes "\<And>t. t_id (f t) = t_id t"
  shows "map t_id (sql_update P f ts) = map t_id ts"
  using assms by (simp add: sql_update_def)

lemma distinct_ids_unique:
  assumes "distinct (map t_id ts)" and "x \<in> set ts" and "y \<in> set ts" and "t_id x = t_id y"
  shows "x = y"
  using assms by (meson distinct_map inj_on_def)

text \<open>With unique trip ids, a trip that passed the check of \<open>accept_trip\<close> has no driver.\<close>

lemma accept_available_no_driver:
  assumes "accept_trip_available tid c" and "trip_ids_distinct (working c)"
    and "t \<in> set (trips (working c))" and "t_id t = tid"
  shows "driver_id t = None"
proof -
  from assms(1) obtain t0 where
    f: "fetchone (filter (\<lambda>t. t_id t = tid \<and> deleted_at t = None) (trips (working c))) = Some t0"
    and d: "driver_id t0 = None"
    by (auto simp: accept_trip_available_def split: option.splits)
  from fetchone_filter_Some[OF f] have "t0 \<in> set (trips (working c))" "t_id t0 = tid" by auto
  with assms(2-4) have "t = t0"
    using distinct_ids_unique[of "trips (working c)" t t0] by (simp add: trip_ids_distinct_def)
  with d show ?thesis by simp
qed

lemma guarded_update_inv:
  assumes "\<And>t. keeps_driver t (f t)" and "trip_ids_distinct (working c)"
  shows "trip_ids_distinct (working (fst (guarded_update P f c)))
       \<and> drivers_kept (trips (working c)) (trips (working (fst (guarded_update P f c))))"
proof -
  have "\<And>t. t_id (f t) = t_id t" using assms(1) by (simp add: keeps_driver_def)
  then have "map t_id (sql_update P f (trips (working c))) = map t_id (trips (working c))"
    by (rule ids_sql_update)
  moreover have "drivers_kept (trips (working c)) (sql_update P f (trips (working c)))"
    by (rule drivers_kept_sql_update) (rule assms(1))
  ultimately show ?thesis
    using assms(2) by (simp add: guarded_update_trips trip_ids_distinct_def)
qed

lemma create_trip_inv:
  assumes "trip_ids_distinct (working c)"
  shows "trip_ids_distinct (working (fst (create_trip now trip_data c)))
       \<and> drivers_kept (trips (working c)) (trips (working (fst (create_trip now trip_data c))))"
proof (cases "fetchone (filter (\<lambda>u. u_id u = c_passenger_id trip_data) (users (working c))) = None")
  case True
  with assms show ?thesis
    by (simp add: create_trip_def drivers_kept_refl)
next
  case False
  from assms next_id_fresh[of "map t_id (trips (working c))"] show ?thesis
    by (simp add: False create_trip_def Let_def set_trips_def commit_def
        trip_ids_distinct_def drivers_kept_append)
qed

lemma accept_trip_inv:
  assumes "trip_ids_distinct (working c)"
  shows "trip_ids_distinct (working (fst (accept_trip now tid did c)))
       \<and> drivers_kept (trips (working c)) (trips (working (fst (accept_trip now tid did c))))"
proof (cases "accept_trip_available tid c")
  case False
  with assms show ?thesis
    by (simp add: accept_trip_def drivers_kept_refl)
next
  case True
  define f where
    "f = (\<lambda>t::trip. t\<lparr>driver_id := Some did, trip_status := ''accepted'', updated_at := now\<rparr>)"
  define P where "P = (\<lambda>t::trip. t_id t = tid)"
  have tr: "trips (working (fst (accept_trip now tid did c))) = sql_update P f (trips (working c))"
    using True
    by (simp add: accept_trip_def accept_trip_update_def Let_def set_trips_def commit_def
        f_def P_def)
  have "\<And>t. t \<in> set (trips (working c)) \<Longrightarrow> P t \<Longrightarrow> keeps_driver t (f t)"
    using accept_available_no_driver[OF True assms] by (simp add: keeps_driver_def f_def P_def)
  then have "drivers_kept (trips (working c)) (sql_update P f (trips (working c)))"
    by (rule drivers_kept_sql_update)
  moreover have "map t_id (sql_update P f (trips (working c))) = map t_id (trips (working c))"
    by (rule ids_sql_update) (simp add: f_def)
  ultimately show ?thesis
    using assms by (simp add: tr trip_ids_distinct_def)
qed

lemma update_trip_inv:
  assumes "tu_driver_id trip_data = None" and "trip_ids_distinct (working c)"
  shows "trip_ids_distinct (working (fst (update_trip now tid trip_data c)))
       \<and> drivers_kept (trips (working c))
            (trips (working (fst (update_trip now tid trip_data c))))"
proof -
  define P where "P = (\<lambda>t::trip. t_id t = tid \<and> deleted_at t = None)"
  define f where
    "f = (\<lambda>t::trip. t\<lparr>driver_id := set_opt_field (tu_driver_id trip_data) (driver_id t),
                        trip_status := set_field (tu_trip_status trip_data) (trip_status t),
                        start_time := set_opt_field (tu_start_time trip_data) (start_time t),
                        end_time := set_opt_field (tu_end_time trip_data) (end_time t),
                        payment_id := set_opt_field (tu_payment_id trip_data) (payment_id t),
                        updated_at := now\<rparr>)"
  have "trips (working (fst (update_trip now tid trip_data c))) = trips (working c)
      \<or> trips (working (fst (update_trip now tid trip_data c)))
          = sql_update P f (trips (working c))"
    by (simp add: update_trip_def Let_def set_trips_def commit_def P_def f_def)
  moreover have "drivers_kept (trips (working c)) (sql_update P f (trips (working c)))"
    by (rule drivers_kept_sql_update)
      (simp add: keeps_driver_def assms(1) set_opt_field_def f_def)
  moreover have "map t_id (sql_update P f (trips (working c))) = map t_id (trips (working c))"
    by (rule ids_sql_update) (simp add: f_def)
  ultimately show ?thesis
    using assms(2) by (auto simp: trip_ids_distinct_def drivers_kept_refl)
qed

lemma run_op_step:
  assumes "keeps_driver_op x" and "trip_ids_distinct (working c)"
  shows "trip_ids_distinct (working (run_op x c))
       \<and> drivers_kept (trips (working c)) (trips (working (run_op x c)))"
proof (cases x)
  case (Create now trip_data)
  then show ?thesis using create_trip_inv[OF assms(2)] by simp
next
  case (Accept now tid did)
  then show ?thesis using accept_trip_inv[OF assms(2)] by simp
next
  case (Assign now tid did)
  with assms(1) show ?thesis by simp
next
  case (Update now tid trip_data)
  with assms(1) have "tu_driver_id trip_data = None" by simp
  from update_trip_inv[OF this assms(2)] Update show ?thesis by simp
next
  case (Start now tid did)
  have "trip_ids_distinct (working (fst (start_trip now tid did c)))
       \<and> drivers_kept (trips (working c)) (trips (working (fst (start_trip now tid did c))))"
    unfolding start_trip_def
    by (rule guarded_update_inv[OF _ assms(2)]) (simp add: keeps_driver_def)
  with Start show ?thesis by simp
next
  case (Complete now tid did)
  have "trip_ids_distinct (working (fst (complete_trip now tid did c)))
       \<and> drivers_kept (trips (working c)) (trips (working (fst (complete_trip now tid did c))))"
    unfolding complete_trip_def
    by (rule guarded_update_inv[OF _ assms(2)]) (simp add: keeps_driver_def)
  with Complete show ?thesis by simp
next
  case (Cancel now tid did)
  have "trip_ids_distinct (working (fst (cancel_trip now tid did c)))
       \<and> drivers_kept (trips (working c)) (trips (working (fst (cancel_trip now tid did c))))"
    unfolding cancel_trip_def
    by (rule guarded_update_inv[OF _ assms(2)]) (simp add: keeps_driver_def)
  with Cancel show ?thesis by simp
qed

text \<open>
  C5, amended: on a trips table with unique ids, over every sequence of create, accept,
  start, complete and cancel calls and of updates that carry no \<open>driver_id\<close>, every trip
  stays in the table and a driver that is set is never replaced or cleared. An update
  that carries a \<open>driver_id\<close> overwrites the driver; nothing is said of
  \<open>assign_driver_to_trip\<close>.
\<close>

theorem run_ops_keeps_driver:
  assumes "list_all keeps_driver_op ops" and "trip_ids_distinct (working c)"
  shows "drivers_kept (trips (working c)) (trips (working (run_ops ops c)))"
proof -
  have "trip_ids_distinct (working (run_ops ops c))
       \<and> drivers_kept (trips (working c)) (trips (working (run_ops ops c)))"
    using assms
  proof (induction ops arbitrary: c)
    case Nil
    then show ?case by (simp add: run_ops_def drivers_kept_refl)
  next
    case (Cons x xs)
    from Cons.prems have x: "keeps_driver_op x" and xs: "list_all keeps_driver_op xs" by simp_all
    note s = run_op_step[OF x Cons.prems(2)]
    have r: "run_ops (x # xs) c = run_ops xs (run_op x c)" by (simp add: run_ops_def)
    from Cons.IH[OF xs conjunct1[OF s]] s show ?case
      unfolding r using drivers_kept_trans by blast
  qed
  then show ?thesis by simp
qed

theorem run_ops_keeps_driver_witness:
  "list_all keeps_driver_op
     [Accept 8 1 6, Start 9 1 5,
      Update 10 1 \<lparr>tu_driver_id = None, tu_trip_status = Some ''waiting'', tu_start_time = None,
                    tu_end_time = None, tu_payment_id = None\<rparr>,
      Cancel 11 1 5, Complete 12 1 5]
   \<and> trip_ids_distinct (working (connect (mk_db [mk_trip 1 1 (Some 5) ''accepted''] [])))
   \<and> drivers_kept [mk_trip 1 1 (Some 5) ''accepted'']
       (trips (working (run_ops
          [Accept 8 1 6, Start 9 1 5,
           Update 10 1 \<lparr>tu_driver_id = None, tu_trip_status = Some ''waiting'',
                        tu_start_time = None, tu_end_time = None, tu_payment_id = None\<rparr>,
           Cancel 11 1 5, Complete 12 1 5]
          (connect (mk_db [mk_trip 1 1 (Some 5) ''accepted''] [])))))
   \<and> map driver_id (trips (working (run_ops
          [Accept 8 1 6, Start 9 1 5,
           Update 10 1 \<lparr>tu_driver_id = None, tu_trip_status = Some ''waiting'',
                        tu_start_time = None, tu_end_time = None, tu_payment_id = None\<rparr>,
           Cancel 11 1 5, Complete 12 1 5]
          (connect (mk_db [mk_trip 1 1 (Some 5) ''accepted''] []))))) = [Some 5]"
  using run_ops_keeps_driver[of
      "[Accept 8 1 6, Start 9 1 5,
        Update 10 1 \<lparr>tu_driver_id = None, tu_trip_status = Some ''waiting'', tu_start_time = None,
                      tu_end_time = None, tu_payment_id = None\<rparr>,
        Cancel 11 1 5, Complete 12 1 5]"
      "connect (mk_db [mk_trip 1 1 (Some 5) ''accepted''] [])"]
  by (simp add: run_ops_def trip_ids_distinct_def trip_defs sql_defs conn_defs mk_defs Let_def)

subsection \<open>The ledger and the cached balance\<close>


lemma ledger_sum_users_update [simp]:
  "ledger_sum uid (d\<lparr>users := us\<rparr>) = ledger_sum uid d"
  by (simp add: ledger_sum_def)








subsection \<open>Settlement that succeeds\<close>







end
